theory Spec2Isabelle
  imports Complex_Main
begin

section \<open>The notebook \<open>train-resnet50-multiray-wds\<close> as HOL functions\<close>

text \<open>
  The notebook composes three external libraries. What the libraries deliver is a
  parameter of the model: the readings of \<open>time.time()\<close>, the batches that the
  training loader yields in each pass, the loss and accuracy that the forward pass
  computes on a batch, and the resource table of the task scheduler. The notebook's own
  functions are translated one by one. The floats of \<open>Config\<close> and \<open>train\<close> are
  modelled as exact numbers; the report generator is modelled over any arithmetic, and
  a model of Python's float arithmetic is given for it.
\<close>

subsection \<open>Errors\<close>

text \<open>
  \<open>ValueError\<close> is the one exception the notebook raises itself; the others are raised
  by the Python runtime (an unbound global name, a missing dictionary key, a float where
  an integer is required). A function that the notebook calls may raise any of them.
\<close>

datatype error =
    ValueError string
  | NameError string
  | KeyError string
  | TypeError string

subsection \<open>\<open>enumerate_report\<close>\<close>

text \<open>
  The generator's local variables \<open>last\<close> and \<open>delta\<close>. The type of time stamps is
  left open: the generator only subtracts, compares and multiplies them.
\<close>

record 't report_locals =
  r_last :: 't
  r_delta :: 't

text \<open>
  The body of the \<open>for\<close> loop at one element: \<open>now\<close> is the reading of
  \<open>time.time()\<close>; the result is the flag that is yielded and the locals after
  \<open>delta *= growth\<close>.
\<close>

definition report_body ::
  "('t::{minus,times,ord}) \<Rightarrow> 't report_locals \<Rightarrow> 't \<Rightarrow> bool \<times> 't report_locals" where
  "report_body growth s now =
     (if now - r_last s > r_delta s
      then (True, s\<lparr>r_last := now, r_delta := r_delta s * growth\<rparr>)
      else (False, s\<lparr>r_delta := r_delta s * growth\<rparr>))"

text \<open>
  The loop over \<open>enumerate(seq)\<close>. \<open>clock k\<close> is the reading of the generator's
  \<open>k\<close>-th call of \<open>time.time()\<close>; the generator makes one call per element, so the
  call for the element with index \<open>count\<close> is call number \<open>count\<close>.
\<close>

fun enumerate_report_loop ::
  "('t::{minus,times,ord}) \<Rightarrow> (nat \<Rightarrow> 't) \<Rightarrow> nat \<Rightarrow> 't report_locals \<Rightarrow> 'a list
     \<Rightarrow> (nat \<times> 'a \<times> bool) list" where
  "enumerate_report_loop growth clock count s [] = []"
| "enumerate_report_loop growth clock count s (item # seq) =
     (case report_body growth s (clock count) of
        (flag, s') \<Rightarrow> (count, item, flag) # enumerate_report_loop growth clock (Suc count) s' seq)"

text \<open>The triples that \<open>enumerate_report(seq, delta, growth)\<close> yields, in order.\<close>

definition enumerate_report ::
  "'a list \<Rightarrow> ('t::{minus,times,ord,zero}) \<Rightarrow> 't \<Rightarrow> (nat \<Rightarrow> 't) \<Rightarrow> (nat \<times> 'a \<times> bool) list" where
  "enumerate_report seq delta growth clock =
     enumerate_report_loop growth clock 0 \<lparr>r_last = 0, r_delta = delta\<rparr> seq"

text \<open>
  The locals with which the generator reaches element \<open>n\<close>: the loop body applied to
  the readings \<open>clock 0\<close>, ..., \<open>clock (n - 1)\<close>.
\<close>

primrec report_locals_at ::
  "('t::{minus,times,ord}) \<Rightarrow> (nat \<Rightarrow> 't) \<Rightarrow> 't report_locals \<Rightarrow> nat \<Rightarrow> 't report_locals" where
  "report_locals_at growth clock s 0 = s"
| "report_locals_at growth clock s (Suc n) =
     snd (report_body growth (report_locals_at growth clock s n) (clock n))"

text \<open>
  The words of the specification: the time stamp recorded at the most recent element
  before element \<open>n\<close> that was flagged \<open>True\<close>, and \<open>init\<close> when there is none.
\<close>

primrec last_flagged_time :: "'t \<Rightarrow> (nat \<Rightarrow> 't) \<Rightarrow> (nat \<Rightarrow> bool) \<Rightarrow> nat \<Rightarrow> 't" where
  "last_flagged_time init clock flag 0 = init"
| "last_flagged_time init clock flag (Suc n) =
     (if flag n then clock n else last_flagged_time init clock flag n)"

subsection \<open>The data loaders\<close>

text \<open>
  Python resolves a global name when the call is made, so the globals of the module are
  an argument of the model. They give, for each bound name that \<open>make_dataloader\<close>
  calls, the outcome of the call: the loader it returns or the exception it raises. A
  name that is not bound raises \<open>NameError\<close> when it is called.
\<close>

type_synonym 'l globals = "string \<rightharpoonup> (error + 'l)"

definition call_global :: "'l globals \<Rightarrow> string \<Rightarrow> error + 'l" where
  "call_global g name =
     (case g name of None \<Rightarrow> Inl (NameError name) | Some outcome \<Rightarrow> outcome)"

text \<open>
  The notebook defines \<open>make_dataloader_train\<close> and no \<open>make_dataloader_val\<close>;
  \<open>trainloader\<close> is the loader that the dataset library's pipeline returns.
\<close>

definition notebook_globals :: "'l \<Rightarrow> 'l globals" where
  "notebook_globals trainloader = [''make_dataloader_train'' \<mapsto> Inr trainloader]"

definition make_dataloader :: "'l globals \<Rightarrow> string \<Rightarrow> error + 'l" where
  "make_dataloader g split =
     (if split = ''train'' then call_global g ''make_dataloader_train''
      else if split = ''val'' then call_global g ''make_dataloader_val''
      else Inl (ValueError (''unknown split '' @ split)))"

subsection \<open>\<open>Config\<close>\<close>

text \<open>Python's \<open>int(x)\<close> on a float: truncation towards zero.\<close>

definition py_int :: "real \<Rightarrow> int" where
  "py_int x = (if 0 \<le> x then \<lfloor>x\<rfloor> else \<lceil>x\<rceil>)"

record Config =
  epochs :: int
  maxsteps :: int
  lr :: real
  momentum :: real
  rank :: "int option"
  world_size :: int
  backend :: string
  master_addr :: string
  master_port :: string
  report_s :: real
  report_growth :: real

text \<open>\<open>Config()\<close>: every field at its declared default.\<close>

definition Config_init :: Config where
  "Config_init =
     \<lparr>epochs = 1,
      maxsteps = py_int (10 ^ 18),
      lr = 1 / 1000,
      momentum = 9 / 10,
      rank = None,
      world_size = 2,
      backend = ''nccl'',
      master_addr = ''localhost'',
      master_port = ''12355'',
      report_s = 15,
      report_growth = 11 / 10\<rparr>"

subsection \<open>\<open>train\<close>\<close>

text \<open>
  A batch of the training loader: the number of its labels, and the loss and the
  accuracy that the model computes on it.
\<close>

record batch =
  n_labels :: nat
  loss :: real
  accuracy :: real

text \<open>
  The outside of \<open>train\<close>: \<open>w_loader k\<close> is the list of batches of the \<open>k\<close>-th pass
  over the training loader, \<open>w_clock k\<close> the reading of the \<open>k\<close>-th call of
  \<open>time.time()\<close>.
\<close>

record world =
  w_loader :: "nat \<Rightarrow> batch list"
  w_clock :: "nat \<Rightarrow> real"

text \<open>The lines that \<open>train\<close> prints, with the values they show.\<close>

datatype event =
    Report "int option" nat nat real real int
  | FinishedMaxsteps int int
  | FinishedTraining int

text \<open>
  The arguments of \<open>torch.optim.SGD\<close>; \<open>None\<close> for a keyword that the call does not
  pass.
\<close>

record sgd_args =
  sgd_lr :: real
  sgd_momentum :: "real option"

text \<open>\<open>deque(maxlen=100).append\<close>: a full deque drops its oldest entry.\<close>

definition deque_append :: "'a list \<Rightarrow> 'a \<Rightarrow> 'a list" where
  "deque_append xs x = (let ys = xs @ [x] in drop (length ys - 100) ys)"

record train_state =
  losses :: "real list"
  accuracies :: "real list"
  steps :: int
  updates :: nat
  printed :: "event list"

text \<open>
  One pass of the inner loop's body up to \<open>steps += len(labels)\<close>; \<open>updates\<close> counts
  the calls of \<open>optimizer.step()\<close>.
\<close>

definition train_batch :: "Config \<Rightarrow> nat \<Rightarrow> nat \<times> batch \<times> bool \<Rightarrow> train_state \<Rightarrow> train_state" where
  "train_batch config epoch t s =
     (case t of (i, data, verbose) \<Rightarrow>
        let losses' = deque_append (losses s) (loss data);
            accuracies' = deque_append (accuracies s) (accuracy data);
            printed' =
              (if verbose \<and> length losses' > 0
               then printed s @
                      [Report (rank config) epoch i
                         (sum_list losses' / real (length losses'))
                         (sum_list accuracies' / real (length accuracies'))
                         (steps s)]
               else printed s)
        in s\<lparr>losses := losses', accuracies := accuracies', printed := printed',
              updates := Suc (updates s), steps := steps s + int (n_labels data)\<rparr>)"

text \<open>
  The inner loop over the triples of one epoch. The flag of the result tells whether
  \<open>train\<close> has returned from inside the loop.
\<close>

fun train_epoch ::
  "Config \<Rightarrow> nat \<Rightarrow> (nat \<times> batch \<times> bool) list \<Rightarrow> train_state \<Rightarrow> bool \<times> train_state" where
  "train_epoch config epoch [] s = (False, s)"
| "train_epoch config epoch (t # ts) s =
     (let s' = train_batch config epoch t s
      in if steps s' > maxsteps config
         then (True, s'\<lparr>printed := printed s' @ [FinishedMaxsteps (steps s') (maxsteps config)]\<rparr>)
         else train_epoch config epoch ts s')"

text \<open>
  The outer loop over \<open>range(config.epochs)\<close>. Each epoch starts a new generator
  \<open>enumerate_report(trainloader, config.report_s)\<close>, with \<open>growth\<close> at its default
  1.0; \<open>ticks\<close> is the number of clock readings taken by the generators of the epochs
  before.
\<close>

fun train_epochs ::
  "Config \<Rightarrow> world \<Rightarrow> nat \<Rightarrow> nat list \<Rightarrow> train_state \<Rightarrow> bool \<times> train_state" where
  "train_epochs config w ticks [] s = (False, s)"
| "train_epochs config w ticks (epoch # es) s =
     (case train_epoch config epoch
             (enumerate_report (w_loader w epoch) (report_s config) 1 (\<lambda>k. w_clock w (ticks + k))) s of
        (True, s') \<Rightarrow> (True, s')
      | (False, s') \<Rightarrow> train_epochs config w (ticks + length (w_loader w epoch)) es s')"

record train_result =
  model_ddp :: bool
  optimizer :: sgd_args
  returned_early :: bool
  final :: train_state

text \<open>
  \<open>train(config)\<close> in a module with the globals \<open>g\<close>. The loader that the loops
  iterate is the one that \<open>make_dataloader(split='train')\<close> returns; an exception of
  that call ends \<open>train\<close>.
\<close>

definition train_in ::
  "(nat \<Rightarrow> batch list) globals \<Rightarrow> Config \<Rightarrow> world \<Rightarrow> error + train_result" where
  "train_in g config w =
     (let model_ddp' = (rank config \<noteq> None);
          optimizer' = \<lparr>sgd_lr = lr config, sgd_momentum = None\<rparr>
      in case make_dataloader g ''train'' of
           Inl e \<Rightarrow> Inl e
         | Inr trainloader \<Rightarrow>
             (case train_epochs config (w\<lparr>w_loader := trainloader\<rparr>) 0 [0..<nat (epochs config)]
                     \<lparr>losses = [], accuracies = [], steps = 0, updates = 0, printed = []\<rparr> of
                (True, s) \<Rightarrow>
                  Inr \<lparr>model_ddp = model_ddp', optimizer = optimizer',
                       returned_early = True, final = s\<rparr>
              | (False, s) \<Rightarrow>
                  Inr \<lparr>model_ddp = model_ddp', optimizer = optimizer',
                       returned_early = False,
                       final = s\<lparr>printed := printed s @ [FinishedTraining (steps s)]\<rparr>\<rparr>))"

text \<open>
  \<open>train(config)\<close> in the notebook: the globals are the notebook's, and
  \<open>w_loader w\<close> is the loader that \<open>make_dataloader_train\<close> builds.
\<close>

definition train :: "Config \<Rightarrow> world \<Rightarrow> error + train_result" where
  "train config w = train_in (notebook_globals (w_loader w)) config w"

subsection \<open>\<open>train_on_ray\<close>\<close>

text \<open>
  A process is the environment \<open>os.environ\<close> and the calls of
  \<open>dist.init_process_group\<close> made so far, each with its backend, rank and world size.
\<close>

record process =
  environ :: "string \<rightharpoonup> string"
  process_groups :: "(string \<times> int \<times> int) list"

text \<open>
  \<open>train_on_ray(rank, config)\<close> in a module with the globals \<open>g\<close>. The result is
  the process as it is when \<open>train\<close> is called, the config that \<open>train\<close>
  receives, and what \<open>train\<close> returns.
\<close>

definition train_on_ray_in ::
  "(nat \<Rightarrow> batch list) globals \<Rightarrow> int option \<Rightarrow> Config \<Rightarrow> process \<Rightarrow> world
     \<Rightarrow> process \<times> Config \<times> (error + train_result)" where
  "train_on_ray_in g rank' config p w =
     (case rank' of
        Some r \<Rightarrow>
          (let p1 = p\<lparr>environ := (environ p)(''MASTER_ADDR'' \<mapsto> master_addr config)\<rparr>;
               p2 = p1\<lparr>environ := (environ p1)(''MASTER_PORT'' \<mapsto> master_port config)\<rparr>;
               p3 = p2\<lparr>process_groups :=
                          process_groups p2 @ [(backend config, r, world_size config)]\<rparr>;
               config' = config\<lparr>rank := Some r\<rparr>
           in (p3, config', train_in g config' w))
      | None \<Rightarrow> (p, config, train_in g config w))"

text \<open>\<open>train_on_ray(rank, config)\<close> in the notebook.\<close>

definition train_on_ray ::
  "int option \<Rightarrow> Config \<Rightarrow> process \<Rightarrow> world \<Rightarrow> process \<times> Config \<times> (error + train_result)" where
  "train_on_ray rank' config p w =
     train_on_ray_in (notebook_globals (w_loader w)) rank' config p w"

subsection \<open>\<open>distributed_training\<close>\<close>

text \<open>
  A Python number is an \<open>int\<close> or a \<open>float\<close>. The scheduler's resource table maps a
  resource name to a quantity.
\<close>

datatype pynum = PyInt int | PyFloat real

fun py_real :: "pynum \<Rightarrow> real" where
  "py_real (PyInt i) = real_of_int i"
| "py_real (PyFloat x) = x"

text \<open>\<open>min(a, b)\<close> returns \<open>b\<close> when \<open>b < a\<close> and \<open>a\<close> otherwise.\<close>

definition py_min :: "pynum \<Rightarrow> pynum \<Rightarrow> pynum" where
  "py_min a b = (if py_real b < py_real a then b else a)"

text \<open>\<open>range(n)\<close> on an integer: the numbers from 0 up to, not including, \<open>n\<close>.\<close>

definition py_range :: "int \<Rightarrow> int list" where
  "py_range n = [0..n - 1]"

text \<open>
  The result is the value of \<open>config.world_size\<close> after the call, and either the
  exception or the arguments of the remote tasks in the order of their launch.
  \<open>range\<close> raises \<open>TypeError\<close> on a float.
\<close>

definition distributed_training ::
  "(string \<rightharpoonup> pynum) \<Rightarrow> Config \<Rightarrow> pynum \<times> (error + (int \<times> Config) list)" where
  "distributed_training available_resources config =
     (case available_resources ''GPU'' of
        None \<Rightarrow> (PyInt (world_size config), Inl (KeyError ''GPU''))
      | Some num_gpus \<Rightarrow>
          (let ws = py_min (PyInt (world_size config)) num_gpus
           in (ws,
               case ws of
                 PyInt n \<Rightarrow> Inr (map (\<lambda>i. (i, config\<lparr>world_size := n\<rparr>)) (py_range n))
               | PyFloat x \<Rightarrow>
                   Inl (TypeError ''float object cannot be interpreted as an integer''))))"

subsection \<open>Python floats\<close>

text \<open>
  A finite Python float is an IEEE 754 binary64 number. \<open>Float64 m e\<close> stands for
  \<open>m * 2 ^ e\<close>, in canonical form: \<open>m\<close> is odd, or \<open>m\<close> and \<open>e\<close> are 0. An
  operation computes the exact result and rounds it to 53 significant bits, a tie to the
  even neighbour. The exponent is not bounded: overflow to infinity, subnormal numbers,
  NaN and the sign of zero are left out, so this is Python's arithmetic wherever the
  results are normal numbers.
\<close>

datatype float64 = Float64 int int

text \<open>The number of binary digits of a natural number.\<close>

fun bit_length :: "nat \<Rightarrow> nat" where
  "bit_length n = (if n = 0 then 0 else Suc (bit_length (n div 2)))"

declare bit_length.simps [simp del]

text \<open>The canonical form of \<open>m * 2 ^ e\<close>.\<close>

function float_norm :: "int \<Rightarrow> int \<Rightarrow> float64" where
  "float_norm m e =
     (if m = 0 then Float64 0 0
      else if even m then float_norm (m div 2) (e + 1)
      else Float64 m e)"
  by pat_completeness auto
termination
  by (relation "measure (\<lambda>(m, e). nat \<bar>m\<bar>)") auto

declare float_norm.simps [simp del]

text \<open>\<open>m / 2 ^ k\<close> rounded to the nearest integer, a tie to the even one.\<close>

definition round_half_even :: "int \<Rightarrow> nat \<Rightarrow> int" where
  "round_half_even m k =
     (let q = m div 2 ^ k; r = m mod 2 ^ k
      in if 2 * r > 2 ^ k \<or> (2 * r = 2 ^ k \<and> odd q) then q + 1 else q)"

text \<open>\<open>m * 2 ^ e\<close> rounded to 53 significant bits.\<close>

definition float_round :: "int \<Rightarrow> int \<Rightarrow> float64" where
  "float_round m e =
     (let k = bit_length (nat \<bar>m\<bar>) - 53
      in float_norm (round_half_even m k) (e + int k))"

text \<open>
  Multiplication, subtraction and comparison of floats: the exact result, rounded.
\<close>

instantiation float64 :: "{zero, one, minus, times, ord}"
begin

definition zero_float64 :: float64 where
  "zero_float64 = Float64 0 0"

definition one_float64 :: float64 where
  "one_float64 = Float64 1 0"

fun times_float64 :: "float64 \<Rightarrow> float64 \<Rightarrow> float64" where
  "times_float64 (Float64 m1 e1) (Float64 m2 e2) = float_round (m1 * m2) (e1 + e2)"

fun minus_float64 :: "float64 \<Rightarrow> float64 \<Rightarrow> float64" where
  "minus_float64 (Float64 m1 e1) (Float64 m2 e2) =
     (let e = min e1 e2
      in float_round (m1 * 2 ^ nat (e1 - e) - m2 * 2 ^ nat (e2 - e)) e)"

fun less_float64 :: "float64 \<Rightarrow> float64 \<Rightarrow> bool" where
  "less_float64 (Float64 m1 e1) (Float64 m2 e2) =
     (let e = min e1 e2 in m1 * 2 ^ nat (e1 - e) < m2 * 2 ^ nat (e2 - e))"

fun less_eq_float64 :: "float64 \<Rightarrow> float64 \<Rightarrow> bool" where
  "less_eq_float64 (Float64 m1 e1) (Float64 m2 e2) =
     (let e = min e1 e2 in m1 * 2 ^ nat (e1 - e) \<le> m2 * 2 ^ nat (e2 - e))"

instance ..

end

instance float64 :: power ..





subsection \<open>Notions for the statements about \<open>train\<close>\<close>

text \<open>
  The batches that \<open>train\<close> can reach: those of the passes
  \<open>0\<close>, ..., \<open>config.epochs - 1\<close> over the loader, in order.
\<close>

definition all_batches :: "Config \<Rightarrow> world \<Rightarrow> batch list" where
  "all_batches config w = concat (map (w_loader w) [0..<nat (epochs config)])"

text \<open>The cumulative number of samples of the first \<open>k\<close> batches.\<close>

definition samples :: "batch list \<Rightarrow> nat \<Rightarrow> int" where
  "samples bs k = (\<Sum>b\<leftarrow>take k bs. int (n_labels b))"

text \<open>
  The two counters of \<open>train\<close> alone, on the label counts of the batches: the loop
  adds a batch to \<open>steps\<close>, counts its optimizer update and then compares with the
  cap. The proofs relate both loops of \<open>train\<close> to it.
\<close>

fun count_steps :: "int \<Rightarrow> nat list \<Rightarrow> int \<times> nat \<Rightarrow> bool \<times> int \<times> nat" where
  "count_steps m [] (st, u) = (False, st, u)"
| "count_steps m (n # ns) (st, u) =
     (if st + int n > m then (True, st + int n, Suc u) else count_steps m ns (st + int n, Suc u))"

fun is_report :: "event \<Rightarrow> bool" where
  "is_report (Report r e i l a st) = True"
| "is_report (FinishedMaxsteps st m) = False"
| "is_report (FinishedTraining st) = False"

text \<open>
  An outside for the examples: every pass over the loader yields three batches of 32
  labels, and the clock advances by ten seconds from one reading to the next.
\<close>

definition example_world :: world where
  "example_world =
     \<lparr>w_loader = (\<lambda>k. [\<lparr>n_labels = 32, loss = 7, accuracy = 0\<rparr>,
                        \<lparr>n_labels = 32, loss = 6, accuracy = 1 / 2\<rparr>,
                        \<lparr>n_labels = 32, loss = 5, accuracy = 1\<rparr>]),
      w_clock = (\<lambda>k. 1000 + 10 * real k)\<rparr>"

section \<open>Properties\<close>

subsection \<open>The report generator\<close>

lemma report_body_flag: "fst (report_body growth s now) \<longleftrightarrow> now - r_last s > r_delta s"
  by (simp add: report_body_def)

lemma report_body_delta: "r_delta (snd (report_body growth s now)) = r_delta s * growth"
  by (simp add: report_body_def)

lemma report_body_last:
  "r_last (snd (report_body growth s now)) = (if fst (report_body growth s now) then now else r_last s)"
  by (simp add: report_body_def)

lemma report_locals_at_shift:
  "report_locals_at growth clk s (Suc n) =
     report_locals_at growth (\<lambda>i. clk (Suc i)) (snd (report_body growth s (clk 0))) n"
  by (induction n) simp_all

lemma enumerate_report_loop_length:
  "length (enumerate_report_loop growth clk c s seq) = length seq"
  by (induction seq arbitrary: c s) (simp_all split: prod.splits)

lemma enumerate_report_loop_nth:
  "n < length seq \<Longrightarrow>
   enumerate_report_loop growth clk c s seq ! n =
     (c + n, seq ! n,
      fst (report_body growth (report_locals_at growth (\<lambda>i. clk (c + i)) s n) (clk (c + n))))"
proof (induction seq arbitrary: c s n)
  case Nil
  then show ?case by simp
next
  case (Cons item seq)
  obtain flag s' where b: "report_body growth s (clk c) = (flag, s')"
    by (cases "report_body growth s (clk c)")
  show ?case
  proof (cases n)
    case 0
    then show ?thesis using b by simp
  next
    case (Suc m)
    with Cons.prems have m: "m < length seq" by simp
    have "report_locals_at growth (\<lambda>i. clk (c + i)) s (Suc m) =
          report_locals_at growth (\<lambda>i. clk (Suc c + i)) s' m"
      using report_locals_at_shift [of growth "\<lambda>i. clk (c + i)" s m] b by simp
    then show ?thesis
      using Cons.IH [OF m, of "Suc c" s'] b Suc by simp
  qed
qed

lemma enumerate_report_nth:
  "n < length seq \<Longrightarrow>
   enumerate_report seq delta growth clk ! n =
     (n, seq ! n,
      fst (report_body growth
             (report_locals_at growth clk \<lparr>r_last = 0, r_delta = delta\<rparr> n) (clk n)))"
  using enumerate_report_loop_nth [of n seq growth clk 0]
  by (simp add: enumerate_report_def)

lemma report_locals_at_delta:
  "r_delta (report_locals_at growth clk s n) = ((\<lambda>d. d * growth) ^^ n) (r_delta s)"
  by (induction n) (simp_all add: report_body_delta)

lemma report_locals_at_last:
  "r_last (report_locals_at growth clk s n) =
     last_flagged_time (r_last s) clk
       (\<lambda>j. fst (report_body growth (report_locals_at growth clk s j) (clk j))) n"
  by (induction n) (simp_all add: report_body_last)

lemma last_flagged_time_cong:
  "(\<And>j. j < n \<Longrightarrow> f j = g j) \<Longrightarrow> last_flagged_time i clk f n = last_flagged_time i clk g n"
  by (induction n) simp_all


text \<open>
  Claim C1. \<open>enumerate_report(seq, delta, growth)\<close> yields one triple per element of
  \<open>seq\<close>, in order: the zero-based index, the element, and the report flag. The flag
  of element \<open>n\<close> is \<open>True\<close> exactly when the reading of the clock at that element
  exceeds the time stamp of the most recent element flagged \<open>True\<close> before it (0 when
  there is none) by more than the interval then in effect, which is \<open>delta\<close>
  multiplied \<open>n\<close> times by \<open>growth\<close>. The time stamp changes only at a flagged
  element, as \<open>last_flagged_time\<close> says.
\<close>

theorem enumerate_report_yields:
  fixes seq :: "'a list" and delta growth :: "'t::{minus,times,ord,zero}"
  shows "length (enumerate_report seq delta growth clk) = length seq \<and>
   (\<forall>n<length seq.
      fst (enumerate_report seq delta growth clk ! n) = n \<and>
      fst (snd (enumerate_report seq delta growth clk ! n)) = seq ! n \<and>
      (snd (snd (enumerate_report seq delta growth clk ! n)) \<longleftrightarrow>
         clk n - last_flagged_time 0 clk
                     (\<lambda>j. snd (snd (enumerate_report seq delta growth clk ! j))) n
           > ((\<lambda>d. d * growth) ^^ n) delta))"
proof (intro conjI allI impI)
  show "length (enumerate_report seq delta growth clk) = length seq"
    by (simp add: enumerate_report_def enumerate_report_loop_length)
next
  fix n assume n: "n < length seq"
  let ?s0 = "\<lparr>r_last = 0, r_delta = delta\<rparr>"
  let ?f = "\<lambda>j. fst (report_body growth (report_locals_at growth clk ?s0 j) (clk j))"
  show "fst (enumerate_report seq delta growth clk ! n) = n"
    using n by (simp add: enumerate_report_nth)
  show "fst (snd (enumerate_report seq delta growth clk ! n)) = seq ! n"
    using n by (simp add: enumerate_report_nth)
  have "last_flagged_time 0 clk (\<lambda>j. snd (snd (enumerate_report seq delta growth clk ! j))) n =
        last_flagged_time 0 clk ?f n"
    by (rule last_flagged_time_cong) (use n in \<open>simp add: enumerate_report_nth\<close>)
  also have "\<dots> = r_last (report_locals_at growth clk ?s0 n)"
    by (simp add: report_locals_at_last)
  finally have l: "last_flagged_time 0 clk
        (\<lambda>j. snd (snd (enumerate_report seq delta growth clk ! j))) n =
      r_last (report_locals_at growth clk ?s0 n)" .
  have d: "((\<lambda>d. d * growth) ^^ n) delta = r_delta (report_locals_at growth clk ?s0 n)"
    by (simp add: report_locals_at_delta)
  show "snd (snd (enumerate_report seq delta growth clk ! n)) \<longleftrightarrow>
         clk n - last_flagged_time 0 clk
                     (\<lambda>j. snd (snd (enumerate_report seq delta growth clk ! j))) n
           > ((\<lambda>d. d * growth) ^^ n) delta"
    unfolding l d using n by (simp add: enumerate_report_nth report_body_flag)
qed


theorem enumerate_report_yields_witness:
  "(3::nat) < length ''abcd'' \<and>
   enumerate_report ''abcd'' (2::int) 1 (\<lambda>k. int k + 3) ! 3 = (3, CHR ''d'', True) \<and>
   last_flagged_time 0 (\<lambda>k. int k + 3)
     (\<lambda>j. snd (snd (enumerate_report ''abcd'' (2::int) 1 (\<lambda>k. int k + 3) ! j))) 3 = 3"
  using enumerate_report_yields [of "''abcd''" "2::int" 1 "\<lambda>k. int k + 3"]
  by (simp add: enumerate_report_def report_body_def numeral_3_eq_3)











subsection \<open>The training loop\<close>

lemma count_steps_append:
  "count_steps m (xs @ ys) a =
     (case count_steps m xs a of (True, r) \<Rightarrow> (True, r) | (False, r) \<Rightarrow> count_steps m ys r)"
proof (induction xs arbitrary: a)
  case Nil
  then show ?case by (cases a) simp
next
  case (Cons x xs)
  then show ?case by (cases a) simp
qed

lemma count_steps_char:
  "count_steps m ns (st, u) = (b, st', u') \<Longrightarrow>
   \<exists>k\<le>length ns. u' = u + k \<and> st' = st + (\<Sum>n\<leftarrow>take k ns. int n) \<and>
     (\<forall>j. 0 < j \<and> j < k \<longrightarrow> st + (\<Sum>n\<leftarrow>take j ns. int n) \<le> m) \<and>
     (b \<longrightarrow> 0 < k \<and> m < st') \<and>
     (\<not> b \<longrightarrow> k = length ns \<and> (0 < k \<longrightarrow> st' \<le> m))"
proof (induction ns arbitrary: st u)
  case Nil
  then show ?case by auto
next
  case (Cons n ns)
  show ?case
  proof (cases "st + int n > m")
    case True
    with Cons.prems have "b" "st' = st + int n" "u' = Suc u" by auto
    then show ?thesis using True by (intro exI [of _ 1]) auto
  next
    case False
    with Cons.prems have "count_steps m ns (st + int n, Suc u) = (b, st', u')" by simp
    from Cons.IH [OF this] obtain k where k: "k \<le> length ns" "u' = Suc u + k"
      "st' = st + int n + (\<Sum>n\<leftarrow>take k ns. int n)"
      "\<forall>j. 0 < j \<and> j < k \<longrightarrow> st + int n + (\<Sum>n\<leftarrow>take j ns. int n) \<le> m"
      "b \<longrightarrow> 0 < k \<and> m < st'"
      "\<not> b \<longrightarrow> k = length ns \<and> (0 < k \<longrightarrow> st' \<le> m)"
      by blast
    have j: "st + (\<Sum>n\<leftarrow>take j (n # ns). int n) \<le> m" if "0 < j" "j < Suc k" for j
    proof (cases j)
      case 0
      with that show ?thesis by simp
    next
      case (Suc i)
      show ?thesis
      proof (cases "i = 0")
        case True
        with Suc False show ?thesis by simp
      next
        case F: False
        with Suc that k(4) have "st + int n + (\<Sum>n\<leftarrow>take i ns. int n) \<le> m" by simp
        with Suc show ?thesis by simp
      qed
    qed
    have e: "\<not> b \<longrightarrow> st' \<le> m"
    proof
      assume nb: "\<not> b"
      show "st' \<le> m"
      proof (cases "k = 0")
        case True
        with k(3) False show ?thesis by simp
      next
        case F: False
        with k(6) nb show ?thesis by simp
      qed
    qed
    show ?thesis
      using k(1,2,3,5,6) j e by (intro exI [of _ "Suc k"]) auto
  qed
qed

lemma train_batch_steps:
  "steps (train_batch config epoch t s) = steps s + int (n_labels (fst (snd t)))"
  by (cases t) (simp add: train_batch_def Let_def)

lemma train_batch_updates:
  "updates (train_batch config epoch t s) = Suc (updates s)"
  by (cases t) (simp add: train_batch_def Let_def)

lemma train_batch_printed:
  "\<exists>rs. list_all is_report rs \<and> printed (train_batch config epoch t s) = printed s @ rs"
  by (cases t) (simp add: train_batch_def Let_def)

lemma train_epoch_count:
  "train_epoch config epoch ts s = (b, s') \<Longrightarrow>
   count_steps (maxsteps config) (map (\<lambda>t. n_labels (fst (snd t))) ts) (steps s, updates s) =
     (b, steps s', updates s')"
proof (induction ts arbitrary: s)
  case Nil
  then show ?case by auto
next
  case (Cons t ts)
  let ?s1 = "train_batch config epoch t s"
  show ?case
  proof (cases "steps ?s1 > maxsteps config")
    case True
    with Cons.prems show ?thesis
      by (auto simp: Let_def train_batch_steps train_batch_updates)
  next
    case False
    with Cons.prems have "train_epoch config epoch ts ?s1 = (b, s')"
      by (simp add: Let_def)
    from Cons.IH [OF this] False show ?thesis
      by (simp add: train_batch_steps train_batch_updates)
  qed
qed

lemma train_epoch_printed:
  "train_epoch config epoch ts s = (b, s') \<Longrightarrow>
   \<exists>rs. list_all is_report rs \<and>
     printed s' = printed s @ rs @
       (if b then [FinishedMaxsteps (steps s') (maxsteps config)] else [])"
proof (induction ts arbitrary: s)
  case Nil
  then show ?case by auto
next
  case (Cons t ts)
  obtain rs where rs: "list_all is_report rs"
    "printed (train_batch config epoch t s) = printed s @ rs"
    using train_batch_printed by blast
  show ?case
  proof (cases "steps (train_batch config epoch t s) > maxsteps config")
    case True
    with Cons.prems rs show ?thesis by (auto simp: Let_def)
  next
    case False
    with Cons.prems have "train_epoch config epoch ts (train_batch config epoch t s) = (b, s')"
      by (simp add: Let_def)
    from Cons.IH [OF this] obtain rs' where "list_all is_report rs'"
      "printed s' = printed (train_batch config epoch t s) @ rs' @
         (if b then [FinishedMaxsteps (steps s') (maxsteps config)] else [])"
      by blast
    with rs show ?thesis by (intro exI [of _ "rs @ rs'"]) simp
  qed
qed

lemma enumerate_report_loop_items:
  "map (\<lambda>t. fst (snd t)) (enumerate_report_loop growth clk c s seq) = seq"
  by (induction seq arbitrary: c s) (simp_all split: prod.splits)

lemma enumerate_report_items:
  "map (\<lambda>t. fst (snd t)) (enumerate_report seq delta growth clk) = seq"
  by (simp add: enumerate_report_def enumerate_report_loop_items)

lemma enumerate_report_sizes:
  "map (\<lambda>t. n_labels (fst (snd t))) (enumerate_report seq delta growth clk) = map n_labels seq"
proof -
  have "map (\<lambda>t. n_labels (fst (snd t))) (enumerate_report seq delta growth clk) =
        map n_labels (map (\<lambda>t. fst (snd t)) (enumerate_report seq delta growth clk))"
    by (simp add: comp_def)
  then show ?thesis by (simp only: enumerate_report_items)
qed

lemma train_epochs_count:
  "train_epochs config w ticks es s = (b, s') \<Longrightarrow>
   count_steps (maxsteps config) (map n_labels (concat (map (w_loader w) es)))
     (steps s, updates s) = (b, steps s', updates s')"
proof (induction es arbitrary: ticks s)
  case Nil
  then show ?case by auto
next
  case (Cons e es)
  let ?ts = "enumerate_report (w_loader w e) (report_s config) 1 (\<lambda>k. w_clock w (ticks + k))"
  obtain b1 s1 where r: "train_epoch config e ?ts s = (b1, s1)"
    by (cases "train_epoch config e ?ts s")
  from train_epoch_count [OF r]
  have c: "count_steps (maxsteps config) (map n_labels (w_loader w e)) (steps s, updates s) =
             (b1, steps s1, updates s1)"
    by (simp only: enumerate_report_sizes)
  show ?case
  proof (cases b1)
    case True
    with Cons.prems r have "b" "s' = s1" by auto
    with True c show ?thesis by (simp add: count_steps_append)
  next
    case False
    with Cons.prems r
    have "train_epochs config w (ticks + length (w_loader w e)) es s1 = (b, s')" by simp
    from Cons.IH [OF this] False c show ?thesis by (simp add: count_steps_append)
  qed
qed

lemma train_epochs_printed:
  "train_epochs config w ticks es s = (b, s') \<Longrightarrow>
   \<exists>rs. list_all is_report rs \<and>
     printed s' = printed s @ rs @
       (if b then [FinishedMaxsteps (steps s') (maxsteps config)] else [])"
proof (induction es arbitrary: ticks s)
  case Nil
  then show ?case by auto
next
  case (Cons e es)
  let ?ts = "enumerate_report (w_loader w e) (report_s config) 1 (\<lambda>k. w_clock w (ticks + k))"
  obtain b1 s1 where r: "train_epoch config e ?ts s = (b1, s1)"
    by (cases "train_epoch config e ?ts s")
  from train_epoch_printed [OF r] obtain rs where rs: "list_all is_report rs"
    "printed s1 = printed s @ rs @
       (if b1 then [FinishedMaxsteps (steps s1) (maxsteps config)] else [])"
    by blast
  show ?case
  proof (cases b1)
    case True
    with Cons.prems r have "b" "s' = s1" by auto
    with True rs show ?thesis by auto
  next
    case False
    with Cons.prems r
    have "train_epochs config w (ticks + length (w_loader w e)) es s1 = (b, s')" by simp
    from Cons.IH [OF this] obtain rs' where "list_all is_report rs'"
      "printed s' = printed s1 @ rs' @
         (if b then [FinishedMaxsteps (steps s') (maxsteps config)] else [])"
      by blast
    with rs False show ?thesis by (intro exI [of _ "rs @ rs'"]) simp
  qed
qed

lemma make_dataloader_train: "make_dataloader (notebook_globals l) ''train'' = Inr l"
  by (simp add: make_dataloader_def call_global_def notebook_globals_def)

lemma train_cases:
  obtains s where
    "train_epochs config w 0 [0..<nat (epochs config)]
        \<lparr>losses = [], accuracies = [], steps = 0, updates = 0, printed = []\<rparr> = (True, s)"
    "train config w = Inr \<lparr>model_ddp = (rank config \<noteq> None),
        optimizer = \<lparr>sgd_lr = lr config, sgd_momentum = None\<rparr>,
        returned_early = True, final = s\<rparr>"
  | s where
    "train_epochs config w 0 [0..<nat (epochs config)]
        \<lparr>losses = [], accuracies = [], steps = 0, updates = 0, printed = []\<rparr> = (False, s)"
    "train config w = Inr \<lparr>model_ddp = (rank config \<noteq> None),
        optimizer = \<lparr>sgd_lr = lr config, sgd_momentum = None\<rparr>,
        returned_early = False,
        final = s\<lparr>printed := printed s @ [FinishedTraining (steps s)]\<rparr>\<rparr>"
proof -
  let ?s0 = "\<lparr>losses = [], accuracies = [], steps = 0, updates = 0, printed = []\<rparr>"
  obtain b s where r: "train_epochs config w 0 [0..<nat (epochs config)] ?s0 = (b, s)"
    by (cases "train_epochs config w 0 [0..<nat (epochs config)] ?s0")
  show thesis
  proof (cases b)
    case True
    with r that(1) [of s] show ?thesis
      by (simp add: train_def train_in_def make_dataloader_train)
  next
    case False
    with r that(2) [of s] show ?thesis
      by (simp add: train_def train_in_def make_dataloader_train)
  qed
qed


lemma train_run:
  "\<exists>r. train config w = Inr r \<and>
     updates (final r) \<le> length (all_batches config w) \<and>
     steps (final r) = samples (all_batches config w) (updates (final r)) \<and>
     (\<forall>j. 0 < j \<and> j < updates (final r) \<longrightarrow>
        samples (all_batches config w) j \<le> maxsteps config) \<and>
     (returned_early r \<longleftrightarrow>
        (\<exists>k. 0 < k \<and> k \<le> length (all_batches config w) \<and>
           samples (all_batches config w) k > maxsteps config)) \<and>
     (returned_early r \<longrightarrow>
        0 < updates (final r) \<and>
        samples (all_batches config w) (updates (final r)) > maxsteps config \<and>
        (\<exists>rs. list_all is_report rs \<and>
           printed (final r) = rs @ [FinishedMaxsteps (steps (final r)) (maxsteps config)])) \<and>
     (\<not> returned_early r \<longrightarrow>
        updates (final r) = length (all_batches config w) \<and>
        (\<exists>rs. list_all is_report rs \<and>
           printed (final r) = rs @ [FinishedTraining (steps (final r))]))"
proof -
  let ?s0 = "\<lparr>losses = [], accuracies = [], steps = 0, updates = 0, printed = []\<rparr>"
  let ?bs = "all_batches config w"
  let ?m = "maxsteps config"
  have sam: "samples ?bs j = (\<Sum>n\<leftarrow>take j (map n_labels ?bs). int n)" for j
    by (simp add: samples_def take_map comp_def)
  show ?thesis
  proof (cases rule: train_cases [where config = config and w = w])
    case (1 s)
    from train_epochs_count [OF 1(1)]
    have "count_steps ?m (map n_labels ?bs) (0, 0) = (True, steps s, updates s)"
      by (simp add: all_batches_def)
    from count_steps_char [OF this] obtain k where k: "k \<le> length ?bs" "updates s = k"
      "steps s = (\<Sum>n\<leftarrow>take k (map n_labels ?bs). int n)"
      "\<forall>j. 0 < j \<and> j < k \<longrightarrow> (\<Sum>n\<leftarrow>take j (map n_labels ?bs). int n) \<le> ?m"
      "0 < k" "?m < steps s"
      by auto
    from train_epochs_printed [OF 1(1)] obtain rs where rs: "list_all is_report rs"
      "printed s = rs @ [FinishedMaxsteps (steps s) ?m]"
      by auto
    have ex: "\<exists>k. 0 < k \<and> k \<le> length ?bs \<and> samples ?bs k > ?m"
      using k by (intro exI [of _ k]) (simp add: sam)
    show ?thesis
      using 1(2) k rs ex by (simp add: sam)
  next
    case (2 s)
    from train_epochs_count [OF 2(1)]
    have "count_steps ?m (map n_labels ?bs) (0, 0) = (False, steps s, updates s)"
      by (simp add: all_batches_def)
    from count_steps_char [OF this] obtain k where k: "k = length ?bs" "updates s = k"
      "steps s = (\<Sum>n\<leftarrow>take k (map n_labels ?bs). int n)"
      "\<forall>j. 0 < j \<and> j < k \<longrightarrow> (\<Sum>n\<leftarrow>take j (map n_labels ?bs). int n) \<le> ?m"
      "0 < k \<longrightarrow> steps s \<le> ?m"
      by auto
    from train_epochs_printed [OF 2(1)] obtain rs where rs: "list_all is_report rs"
      "printed s = rs"
      by auto
    have nex: "\<not> (\<exists>j. 0 < j \<and> j \<le> length ?bs \<and> samples ?bs j > ?m)"
    proof
      assume "\<exists>j. 0 < j \<and> j \<le> length ?bs \<and> samples ?bs j > ?m"
      then obtain j where j: "0 < j" "j \<le> length ?bs" "samples ?bs j > ?m" by blast
      show False
      proof (cases "j = k")
        case True
        with j k(3,5) show False by (simp add: sam)
      next
        case False
        with j k(1) have "j < k" by simp
        with j(1) k(4) have "samples ?bs j \<le> ?m" by (simp add: sam)
        with j(3) show False by simp
      qed
    qed
    show ?thesis
      using 2(2) k(1,2,3,4) rs nex by (simp add: sam)
  qed
qed

lemmas train_eval =
  train_def train_in_def make_dataloader_train enumerate_report_def report_body_def train_batch_def
  deque_append_def Let_def Config_init_def example_world_def

text \<open>
  Claim C5. \<open>train\<close> returns a result for every config. It processes a prefix of the
  batches of the passes \<open>0\<close>, ..., \<open>config.epochs - 1\<close>, and \<open>steps\<close> is the
  number of samples of the processed batches. It returns early exactly when after some
  batch the cumulative number of samples exceeds \<open>config.maxsteps\<close>; then the batch
  it stops after is the first such batch and the last line printed is the maxsteps
  message. Otherwise it processes every batch of every epoch and the last line printed
  is the completion message. All other lines are reports.
\<close>

theorem train_stops_at_cap:
  "\<exists>r. train config w = Inr r \<and>
     updates (final r) \<le> length (all_batches config w) \<and>
     steps (final r) = samples (all_batches config w) (updates (final r)) \<and>
     (\<forall>j. 0 < j \<and> j < updates (final r) \<longrightarrow>
        samples (all_batches config w) j \<le> maxsteps config) \<and>
     (returned_early r \<longleftrightarrow>
        (\<exists>k. 0 < k \<and> k \<le> length (all_batches config w) \<and>
           samples (all_batches config w) k > maxsteps config)) \<and>
     (returned_early r \<longrightarrow>
        0 < updates (final r) \<and>
        samples (all_batches config w) (updates (final r)) > maxsteps config \<and>
        (\<exists>rs. list_all is_report rs \<and>
           printed (final r) = rs @ [FinishedMaxsteps (steps (final r)) (maxsteps config)])) \<and>
     (\<not> returned_early r \<longrightarrow>
        updates (final r) = length (all_batches config w) \<and>
        (\<exists>rs. list_all is_report rs \<and>
           printed (final r) = rs @ [FinishedTraining (steps (final r))]))"
  by (rule train_run)

theorem train_stops_at_cap_witness:
  "train (Config_init\<lparr>maxsteps := 50\<rparr>) example_world =
     Inr \<lparr>model_ddp = False, optimizer = \<lparr>sgd_lr = 1 / 1000, sgd_momentum = None\<rparr>,
          returned_early = True,
          final = \<lparr>losses = [7, 6], accuracies = [0, 1 / 2], steps = 64, updates = 2,
                    printed = [Report None 0 0 7 0 0, FinishedMaxsteps 64 50]\<rparr>\<rparr> \<and>
   (\<exists>k. 0 < k \<and> k \<le> length (all_batches (Config_init\<lparr>maxsteps := 50\<rparr>) example_world) \<and>
      samples (all_batches (Config_init\<lparr>maxsteps := 50\<rparr>) example_world) k > 50) \<and>
   samples (all_batches (Config_init\<lparr>maxsteps := 50\<rparr>) example_world) 2 = 64"
proof -
  have t: "train (Config_init\<lparr>maxsteps := 50\<rparr>) example_world =
     Inr \<lparr>model_ddp = False, optimizer = \<lparr>sgd_lr = 1 / 1000, sgd_momentum = None\<rparr>,
          returned_early = True,
          final = \<lparr>losses = [7, 6], accuracies = [0, 1 / 2], steps = 64, updates = 2,
                    printed = [Report None 0 0 7 0 0, FinishedMaxsteps 64 50]\<rparr>\<rparr>"
    by (simp add: train_eval)
  show ?thesis
    using train_stops_at_cap [of "Config_init\<lparr>maxsteps := 50\<rparr>" example_world]
    unfolding t by auto
qed

text \<open>
  Claim C10, as stated: whenever \<open>train\<close> returns early, \<open>steps\<close> exceeds
  \<open>config.maxsteps\<close> by at most the number of labels of the last processed batch. It
  fails for a negative cap: with \<open>maxsteps = -5\<close> the first batch of 32 labels ends
  the training at \<open>steps = 32\<close>, which is more than \<open>-5 + 32\<close>.
\<close>

theorem train_cap_overshoot_counterexample:
  "train (Config_init\<lparr>maxsteps := - 5\<rparr>) example_world =
     Inr \<lparr>model_ddp = False, optimizer = \<lparr>sgd_lr = 1 / 1000, sgd_momentum = None\<rparr>,
          returned_early = True,
          final = \<lparr>losses = [7], accuracies = [0], steps = 32, updates = 1,
                    printed = [Report None 0 0 7 0 0, FinishedMaxsteps 32 (- 5)]\<rparr>\<rparr> \<and>
   n_labels (all_batches (Config_init\<lparr>maxsteps := - 5\<rparr>) example_world ! (1 - 1)) = 32 \<and>
   \<not> (32 \<le> maxsteps (Config_init\<lparr>maxsteps := - 5\<rparr>) + int 32)"
  by (simp add: train_eval all_batches_def)

text \<open>
  Claim C10, amended: whenever \<open>train\<close> returns early, at least one batch has been
  processed, \<open>steps\<close> is the number of samples of the processed batches, all of them
  whole, the optimizer has been updated once for each of them, the last one included,
  and \<open>steps\<close> exceeds \<open>config.maxsteps\<close>. It exceeds it by at most the number of
  labels of the last processed batch when \<open>config.maxsteps\<close> is not negative, and
  only then.
\<close>

theorem train_cap_overshoot:
  assumes "train config w = Inr r" and "returned_early r"
  shows "0 < updates (final r) \<and> updates (final r) \<le> length (all_batches config w) \<and>
         steps (final r) = samples (all_batches config w) (updates (final r)) \<and>
         maxsteps config < steps (final r) \<and>
         (steps (final r) \<le> maxsteps config +
            int (n_labels (all_batches config w ! (updates (final r) - 1)))
          \<longleftrightarrow> 0 \<le> maxsteps config)"
proof -
  let ?bs = "all_batches config w"
  let ?m = "maxsteps config"
  let ?k = "updates (final r)"
  from train_run [of config w] assms
  have f: "?k \<le> length ?bs" "steps (final r) = samples ?bs ?k"
    "\<forall>j. 0 < j \<and> j < ?k \<longrightarrow> samples ?bs j \<le> ?m" "0 < ?k" "samples ?bs ?k > ?m"
    by auto
  then obtain i where i: "?k = Suc i" by (cases ?k) auto
  with f(1) have il: "i < length ?bs" by simp
  have s: "samples ?bs (Suc i) = samples ?bs i + int (n_labels (?bs ! i))"
    using il by (simp add: samples_def take_Suc_conv_app_nth)
  have nonneg: "0 \<le> samples ?bs j" for j
    unfolding samples_def by (rule sum_list_nonneg) auto
  have "samples ?bs i \<le> ?m \<longleftrightarrow> 0 \<le> ?m"
  proof (cases "i = 0")
    case True
    then show ?thesis by (simp add: samples_def)
  next
    case False
    with f(3) i have "samples ?bs i \<le> ?m" by simp
    with nonneg [of i] show ?thesis by simp
  qed
  with s f i show ?thesis by simp
qed

theorem train_cap_overshoot_witness:
  "train (Config_init\<lparr>maxsteps := 50\<rparr>) example_world =
     Inr \<lparr>model_ddp = False, optimizer = \<lparr>sgd_lr = 1 / 1000, sgd_momentum = None\<rparr>,
          returned_early = True,
          final = \<lparr>losses = [7, 6], accuracies = [0, 1 / 2], steps = 64, updates = 2,
                    printed = [Report None 0 0 7 0 0, FinishedMaxsteps 64 50]\<rparr>\<rparr> \<and>
   (0::int) \<le> maxsteps (Config_init\<lparr>maxsteps := 50\<rparr>) \<and>
   (64::int) \<le> 50 +
      int (n_labels (all_batches (Config_init\<lparr>maxsteps := 50\<rparr>) example_world ! (2 - 1)))"
proof -
  have t: "train (Config_init\<lparr>maxsteps := 50\<rparr>) example_world =
     Inr \<lparr>model_ddp = False, optimizer = \<lparr>sgd_lr = 1 / 1000, sgd_momentum = None\<rparr>,
          returned_early = True,
          final = \<lparr>losses = [7, 6], accuracies = [0, 1 / 2], steps = 64, updates = 2,
                    printed = [Report None 0 0 7 0 0, FinishedMaxsteps 64 50]\<rparr>\<rparr>"
    by (simp add: train_eval)
  show ?thesis
    using train_cap_overshoot [OF t] t by simp
qed

text \<open>
  Claim C3 says that \<open>train\<close> passes \<open>config.momentum\<close> to the optimizer. The call
  is \<open>torch.optim.SGD(model.parameters(), lr=config.lr)\<close>: for every config the
  learning rate is \<open>config.lr\<close> and no momentum is passed, so at the defaults of
  \<open>Config()\<close>, where \<open>config.momentum\<close> is 0.9, the optimizer does not receive it.
\<close>

theorem train_optimizer_without_momentum:
  "(\<exists>r. train config w = Inr r \<and>
        optimizer r = \<lparr>sgd_lr = lr config, sgd_momentum = None\<rparr>) \<and>
   (\<exists>r. train Config_init example_world = Inr r \<and>
        sgd_momentum (optimizer r) \<noteq> Some (momentum Config_init))"
proof -
  have "\<exists>r. train c v = Inr r \<and> optimizer r = \<lparr>sgd_lr = lr c, sgd_momentum = None\<rparr>"
    for c v
    by (cases rule: train_cases [where config = c and w = v]) simp_all
  then show ?thesis by fastforce
qed

subsection \<open>The data loaders\<close>






text \<open>
  Claim C8. \<open>make_dataloader("val")\<close> is not rejected with \<open>ValueError\<close>, and it
  returns no loader: the notebook binds no \<open>make_dataloader_val\<close>, so the call raises
  \<open>NameError\<close>.
\<close>

theorem make_dataloader_val_name_error:
  "make_dataloader (notebook_globals trainloader) ''val'' =
     Inl (NameError ''make_dataloader_val'') \<and>
   (\<forall>l. make_dataloader (notebook_globals trainloader) ''val'' \<noteq> Inr l) \<and>
   (\<forall>msg. make_dataloader (notebook_globals trainloader) ''val'' \<noteq> Inl (ValueError msg))"
  by (simp add: make_dataloader_def call_global_def notebook_globals_def)

subsection \<open>The settings record\<close>

text \<open>
  Claim C4. A \<open>Config\<close> is determined by its eleven fields \<open>epochs\<close>,
  \<open>maxsteps\<close>, \<open>lr\<close>, \<open>momentum\<close>, \<open>rank\<close>, \<open>world_size\<close>, \<open>backend\<close>,
  \<open>master_addr\<close>, \<open>master_port\<close>, \<open>report_s\<close> and \<open>report_growth\<close>, and
  \<open>Config()\<close> has the defaults 1, \<open>10 ^ 18\<close>, 0.001, 0.9, \<open>None\<close>, 2,
  \<open>nccl\<close>, \<open>localhost\<close>, \<open>12355\<close>, 15.0 and 1.1.
\<close>

theorem Config_fields_and_defaults:
  "(\<forall>c::Config.
      c = \<lparr>epochs = epochs c, maxsteps = maxsteps c, lr = lr c, momentum = momentum c,
           rank = rank c, world_size = world_size c, backend = backend c,
           master_addr = master_addr c, master_port = master_port c,
           report_s = report_s c, report_growth = report_growth c\<rparr>) \<and>
   epochs Config_init = 1 \<and>
   maxsteps Config_init = 10 ^ 18 \<and>
   lr Config_init = 1 / 1000 \<and>
   momentum Config_init = 9 / 10 \<and>
   rank Config_init = None \<and>
   world_size Config_init = 2 \<and>
   backend Config_init = ''nccl'' \<and>
   master_addr Config_init = ''localhost'' \<and>
   master_port Config_init = ''12355'' \<and>
   report_s Config_init = 15 \<and>
   report_growth Config_init = 11 / 10"
  by (simp add: Config_init_def py_int_def)

subsection \<open>Distributed training\<close>

text \<open>
  Claim C7. With a rank, \<open>train_on_ray\<close> calls \<open>train\<close> in a process whose
  environment maps \<open>MASTER_ADDR\<close> and \<open>MASTER_PORT\<close> to \<open>config.master_addr\<close> and
  \<open>config.master_port\<close> and is otherwise unchanged, in which the process group has
  been initialized with \<open>config.backend\<close>, the rank and \<open>config.world_size\<close>, and
  with a config whose \<open>rank\<close> is that rank. Without a rank it calls \<open>train\<close> with
  the process and the config as they are.
\<close>

theorem train_on_ray_setup:
  "environ (fst (train_on_ray (Some r) config p w)) =
     (environ p)(''MASTER_ADDR'' \<mapsto> master_addr config,
                 ''MASTER_PORT'' \<mapsto> master_port config) \<and>
   process_groups (fst (train_on_ray (Some r) config p w)) =
     process_groups p @ [(backend config, r, world_size config)] \<and>
   fst (snd (train_on_ray (Some r) config p w)) = config\<lparr>rank := Some r\<rparr> \<and>
   snd (snd (train_on_ray (Some r) config p w)) = train (config\<lparr>rank := Some r\<rparr>) w \<and>
   train_on_ray None config p w = (p, config, train config w)"
  by (simp add: train_on_ray_def train_on_ray_in_def train_def Let_def)

text \<open>
  What \<open>distributed_training\<close> does when the scheduler reports the number of GPUs as
  an integer: the world size becomes the minimum, and one task is launched for each
  rank below it, with the config.
\<close>

lemma distributed_training_int:
  "available_resources ''GPU'' = Some (PyInt g) \<Longrightarrow>
   distributed_training available_resources config =
     (PyInt (min (world_size config) g),
      Inr (map (\<lambda>i. (i, config\<lparr>world_size := min (world_size config) g\<rparr>))
             [0..min (world_size config) g - 1]))"
  by (simp add: distributed_training_def py_min_def py_range_def min_def)

text \<open>
  Claim C6 says that for every config \<open>distributed_training\<close> sets the world size to
  the minimum and launches one task per rank. The scheduler reports quantities as
  floats. With one GPU reported as \<open>1.0\<close> and the default world size 2, the minimum is
  the float \<open>1.0\<close>, \<open>range\<close> raises \<open>TypeError\<close> on it, and no task is launched.
\<close>

theorem distributed_training_float_gpus:
  "distributed_training [''GPU'' \<mapsto> PyFloat 1] Config_init =
     (PyFloat 1, Inl (TypeError ''float object cannot be interpreted as an integer''))"
  by (simp add: distributed_training_def py_min_def Config_init_def)

end
